theory Spec2Isabelle
  imports Complex_Main
begin

section \<open>Numeric helpers of the embedding\<close>

text \<open>
  The program computes with IEEE doubles (Python floats and numpy float64). The embedding
  reads a float as the real number it denotes, and addition, subtraction, multiplication
  and division as the exact operations. The one operation whose rounding is written out is
  the remainder \<^verbatim>\<open>x % 360.0\<close>, because its range depends on it: the remainder ends with
  an addition of the divisor, and the double nearest to that sum can be the divisor itself.
\<close>

text \<open>\<^verbatim>\<open>np.clip(x, lo, hi)\<close> is \<^verbatim>\<open>minimum(maximum(x, lo), hi)\<close>.\<close>

definition np_clip :: "real \<Rightarrow> real \<Rightarrow> real \<Rightarrow> real" where
  "np_clip x lo hi = min (max x lo) hi"

text \<open>
  Rounding to the nearest double, ties to the even significand. A double has a significand
  of 53 bits: a value \<open>y\<close> with \<open>2 ^ e \<le> \<bar>y\<bar> < 2 ^ (e + 1)\<close> is rounded to a multiple of
  \<open>2 ^ (e - 52)\<close>. The exponent range is taken as unbounded (no overflow, no subnormal
  numbers); the values rounded here lie between 0 and 360.
\<close>

definition round_half_even :: "real \<Rightarrow> int" where
  "round_half_even z =
     (let f = \<lfloor>z\<rfloor>; d = z - of_int f
      in if d < 1 / 2 then f else if d > 1 / 2 then f + 1 else if even f then f else f + 1)"

definition round_to_double :: "real \<Rightarrow> real" where
  "round_to_double y =
     (if y = 0 then 0
      else (let e = \<lfloor>log 2 \<bar>y\<bar>\<rfloor>; ulp = 2 powr of_int (e - 52)
            in ulp * of_int (round_half_even (y / ulp))))"

text \<open>
  The C library's \<^verbatim>\<open>fmod(x, m)\<close> is \<open>x - n * m\<close> for the quotient \<open>n\<close> truncated towards
  zero; it has the sign of \<open>x\<close>, and it is exact (the result is a double whenever \<open>x\<close> and
  \<open>m\<close> are).
\<close>

definition c_trunc :: "real \<Rightarrow> int" where
  "c_trunc z = (if 0 \<le> z then \<lfloor>z\<rfloor> else \<lceil>z\<rceil>)"

definition fmod :: "real \<Rightarrow> real \<Rightarrow> real" where
  "fmod x m = x - m * of_int (c_trunc (x / m))"

text \<open>
  The float remainder \<^verbatim>\<open>x % m\<close> of Python and numpy: \<^verbatim>\<open>mod = fmod(x, m)\<close>, and when
  \<^verbatim>\<open>mod\<close> is not zero and its sign differs from the sign of the divisor, \<^verbatim>\<open>mod += m\<close>, a
  float addition. The program only ever divides by the literal \<^verbatim>\<open>360.0\<close>.
\<close>

definition py_mod :: "real \<Rightarrow> real \<Rightarrow> real" where
  "py_mod x m =
     (let r = fmod x m
      in if r \<noteq> 0 \<and> (m < 0) \<noteq> (r < 0) then round_to_double (r + m) else r)"

section \<open>Frame clock: \<^verbatim>\<open>calculate_delta_time\<close>\<close>

text \<open>The module globals that \<^verbatim>\<open>calculate_delta_time\<close> declares \<^verbatim>\<open>global\<close>.\<close>

record clock_state =
  last_frame_time :: real
  delta_time :: real
  frame_count :: int
  delta_time_sum :: real

definition initial_clock :: clock_state where
  "initial_clock =
     \<lparr>last_frame_time = 0, delta_time = 0, frame_count = 0, delta_time_sum = 0\<rparr>"

text \<open>
  The wall-clock sample \<^verbatim>\<open>time.time()\<close> is the argument \<open>current_time\<close>.
\<close>

definition calculate_delta_time :: "real \<Rightarrow> clock_state \<Rightarrow> clock_state" where
  "calculate_delta_time current_time s =
     (let dt =
        (if last_frame_time s = 0 then 1 / 60
         else
           (let raw_delta = current_time - last_frame_time s in
            if raw_delta > 0.033 then 0.033
            else if raw_delta < 0.001 then 0.001
            else delta_time s * 0.7 + raw_delta * 0.3))
      in s\<lparr>delta_time := dt,
           last_frame_time := current_time,
           frame_count := frame_count s + 1,
           delta_time_sum := delta_time_sum s + dt\<rparr>)"

text \<open>One call per rendered frame, each with its own wall-clock sample.\<close>

fun run_clock :: "real list \<Rightarrow> clock_state \<Rightarrow> clock_state" where
  "run_clock [] s = s"
| "run_clock (t # ts) s = run_clock ts (calculate_delta_time t s)"

text \<open>
  The clock invariant: either no sample has been taken into account yet, or the reported
  delta lies within the bounds.
\<close>

definition clock_ok :: "clock_state \<Rightarrow> bool" where
  "clock_ok s = (last_frame_time s = 0 \<or> (0.001 \<le> delta_time s \<and> delta_time s \<le> 0.033))"


section \<open>Orbital camera: \<^verbatim>\<open>update_dynamic_smoothing\<close>, \<^verbatim>\<open>update_camera_position\<close>\<close>

text \<open>
  The pygame key constants that the camera update tests for; every other key code is
  \<open>K_other\<close>.
\<close>

datatype key = K_a | K_d | K_q | K_e | K_w | K_s | K_other int

text \<open>Module globals that no function of the repository assigns after start-up.\<close>

definition pitch_limit :: real where "pitch_limit = 89"
definition min_zoom_distance :: real where "min_zoom_distance = 2"
definition max_zoom_distance :: real where "max_zoom_distance = 50"
definition strafe_speed_multiplier :: real where "strafe_speed_multiplier = 1.3"
definition vertical_speed_multiplier :: real where "vertical_speed_multiplier = 1.6"
definition turbo_multiplier :: real where "turbo_multiplier = 3"
definition fast_smoothing_threshold :: real where "fast_smoothing_threshold = 15"
definition input_smoothing_factor :: real where "input_smoothing_factor = 0.15"
definition idle_smoothing_factor :: real where "idle_smoothing_factor = 0.88"
definition fast_mode_smoothing :: real where "fast_mode_smoothing = 0.08"
definition centerX :: real where "centerX = 0"
definition centerY :: real where "centerY = 0"
definition centerZ :: real where "centerZ = 0"

text \<open>
  What one camera update reads and does not write: the pressed keys, the turbo flag, the
  frame delta (the global \<^verbatim>\<open>delta_time\<close> set by the frame clock, here \<open>frame_delta_time\<close>),
  the wall-clock sample \<^verbatim>\<open>time.time()\<close> taken by \<^verbatim>\<open>update_dynamic_smoothing\<close> (here
  \<open>now\<close>), and the tunable globals that the key handlers adjust.
\<close>

record camera_env =
  keys_pressed :: "key set"
  turbo_active :: bool
  frame_delta_time :: real
  now :: real
  camera_speed :: real
  orbit_speed :: real
  zoom_speed :: real
  pitch_speed :: real
  forward_speed_multiplier :: real
  movement_smoothing :: real
  smoothing_boost_on_input :: bool

text \<open>The values the module assigns at import, with no key pressed.\<close>

definition default_env :: camera_env where
  "default_env =
     \<lparr>keys_pressed = {}, turbo_active = False, frame_delta_time = 0, now = 0,
      camera_speed = 7, orbit_speed = 100, zoom_speed = 3.5, pitch_speed = 70,
      forward_speed_multiplier = 1.3, movement_smoothing = 0.82,
      smoothing_boost_on_input = True\<rparr>"

text \<open>The globals the camera update writes.\<close>

record camera_state =
  camera_yaw :: real
  camera_pitch :: real
  camera_distance :: real
  rotation_velocity :: "real \<times> real"
  zoom_velocity :: real
  current_smoothing :: real
  last_input_time :: real
  eyeX :: real
  eyeY :: real
  eyeZ :: real

definition initial_camera :: camera_state where
  "initial_camera =
     \<lparr>camera_yaw = 0, camera_pitch = 0, camera_distance = 8,
      rotation_velocity = (0, 0), zoom_velocity = 0,
      current_smoothing = 0.82, last_input_time = 0,
      eyeX = 0, eyeY = 0, eyeZ = 8\<rparr>"

definition np_radians :: "real \<Rightarrow> real" where
  "np_radians x = x * pi / 180"

definition update_orbital_camera :: "camera_state \<Rightarrow> camera_state" where
  "update_orbital_camera c =
     (let yaw_rad = np_radians (camera_yaw c);
          pitch_rad = np_radians (camera_pitch c)
      in c\<lparr>eyeX := centerX + camera_distance c * cos pitch_rad * sin yaw_rad,
           eyeY := centerY + camera_distance c * sin pitch_rad,
           eyeZ := centerZ + camera_distance c * cos pitch_rad * cos yaw_rad\<rparr>)"

definition update_dynamic_smoothing :: "camera_env \<Rightarrow> camera_state \<Rightarrow> camera_state" where
  "update_dynamic_smoothing e c =
     (let current_time = now e in
      if \<not> smoothing_boost_on_input e then c\<lparr>current_smoothing := movement_smoothing e\<rparr>
      else
        (let has_input = (keys_pressed e \<noteq> {});
             current_speed =
               (if turbo_active e then camera_speed e * turbo_multiplier else camera_speed e);
             target_smoothing =
               (if has_input then
                  (if current_speed > fast_smoothing_threshold \<or> turbo_active e
                   then fast_mode_smoothing else input_smoothing_factor)
                else
                  (let time_since_input = current_time - last_input_time c in
                   if time_since_input < 0.2 then
                     (let blend_factor = time_since_input / 0.2 in
                      if current_speed > fast_smoothing_threshold
                      then fast_mode_smoothing
                           + (input_smoothing_factor - fast_mode_smoothing) * blend_factor
                      else input_smoothing_factor
                           + (idle_smoothing_factor - input_smoothing_factor) * blend_factor)
                   else idle_smoothing_factor));
             transition_speed = (if has_input then 0.15 else 0.25)
         in c\<lparr>last_input_time := (if has_input then current_time else last_input_time c),
              current_smoothing :=
                current_smoothing c * (1 - transition_speed)
                + target_smoothing * transition_speed\<rparr>))"

definition update_camera_position :: "camera_env \<Rightarrow> camera_state \<Rightarrow> camera_state" where
  "update_camera_position e c0 =
     (let c = update_dynamic_smoothing e c0;
          effective_orbit_speed =
            (if turbo_active e then orbit_speed e * strafe_speed_multiplier * turbo_multiplier
             else orbit_speed e * strafe_speed_multiplier);
          effective_zoom_speed =
            (if turbo_active e then zoom_speed e * forward_speed_multiplier e * turbo_multiplier
             else zoom_speed e * forward_speed_multiplier e);
          effective_pitch_speed =
            (if turbo_active e then pitch_speed e * vertical_speed_multiplier * turbo_multiplier
             else pitch_speed e * vertical_speed_multiplier);
          target0 = (if K_d \<in> keys_pressed e then - effective_orbit_speed
                     else if K_a \<in> keys_pressed e then effective_orbit_speed else 0);
          target1 = (if K_e \<in> keys_pressed e then - effective_pitch_speed
                     else if K_q \<in> keys_pressed e then effective_pitch_speed else 0);
          rv0 = fst (rotation_velocity c) * current_smoothing c
                + target0 * (1 - current_smoothing c);
          rv1 = snd (rotation_velocity c) * current_smoothing c
                + target1 * (1 - current_smoothing c);
          yaw = (if frame_delta_time e > 0
                 then py_mod (camera_yaw c + rv0 * frame_delta_time e) 360
                 else camera_yaw c);
          pitch = (if frame_delta_time e > 0
                   then np_clip (camera_pitch c + rv1 * frame_delta_time e)
                                (- pitch_limit) pitch_limit
                   else camera_pitch c);
          target_zoom_velocity =
            (if K_s \<in> keys_pressed e then effective_zoom_speed
             else if K_w \<in> keys_pressed e then - effective_zoom_speed else 0);
          zv = zoom_velocity c * current_smoothing c
               + target_zoom_velocity * (1 - current_smoothing c);
          distance = (if frame_delta_time e > 0
                      then np_clip (camera_distance c + zv * frame_delta_time e)
                                   min_zoom_distance max_zoom_distance
                      else camera_distance c)
      in update_orbital_camera
           (c\<lparr>rotation_velocity := (rv0, rv1),
              camera_yaw := yaw,
              camera_pitch := pitch,
              zoom_velocity := zv,
              camera_distance := distance\<rparr>))"

text \<open>
  In the source the two tests of a pair are consecutive \<^verbatim>\<open>if\<close> statements, the second
  assignment overwriting the first: with both keys of a pair pressed, \<^verbatim>\<open>K_d\<close>, \<^verbatim>\<open>K_e\<close>
  and \<^verbatim>\<open>K_s\<close> win. The nested conditionals above test the winning key first.
\<close>


text \<open>
  Holding one control for \<open>n\<close> frames at a fixed frame delta \<open>dt\<close>, the wall clock
  advancing by \<open>dt\<close> per frame from \<open>t\<close>, every tunable at its start-up value.
\<close>

definition hold_env :: "key \<Rightarrow> real \<Rightarrow> real \<Rightarrow> camera_env" where
  "hold_env k dt t = default_env\<lparr>keys_pressed := {k}, frame_delta_time := dt, now := t\<rparr>"

primrec hold_control :: "key \<Rightarrow> real \<Rightarrow> nat \<Rightarrow> real \<Rightarrow> camera_state \<Rightarrow> camera_state" where
  "hold_control k dt 0 t c = c"
| "hold_control k dt (Suc n) t c =
     hold_control k dt n (t + dt) (update_camera_position (hold_env k dt t) c)"



text \<open>
  The invariant behind the orbit-right scenario, after \<open>n \<ge> 1\<close> frames of holding \<^verbatim>\<open>K_d\<close>
  at 1/60 s from the initial state: the smoothing factor stays in [0.15, 0.82], the yaw rate
  in (-130, 0), the yaw has wrapped once and has not fallen below \<open>360 - 130 n / 60\<close>, and
  the quantity \<open>60 (yaw - 360) + 130 n + 41/9 (130 + rate)\<close> has not grown (41/9 is
  0.82 / 0.18).
\<close>

definition orbit_right_inv :: "nat \<Rightarrow> camera_state \<Rightarrow> bool" where
  "orbit_right_inv n c =
     (0.15 \<le> current_smoothing c \<and> current_smoothing c \<le> 0.82
      \<and> - 130 < fst (rotation_velocity c) \<and> fst (rotation_velocity c) < 0
      \<and> 360 - 130 * real n / 60 < camera_yaw c \<and> camera_yaw c < 360
      \<and> 60 * (camera_yaw c - 360) + 130 * real n + 41 / 9 * (130 + fst (rotation_velocity c))
          \<le> 130 * (41 / 9))"

text \<open>
  A camera at the upper pitch limit with a positive pitch rate and the smoothing factor
  settled at the input value, as after holding \<^verbatim>\<open>K_q\<close> for a while.
\<close>

definition at_pitch_limit :: camera_state where
  "at_pitch_limit =
     initial_camera\<lparr>camera_pitch := 89, rotation_velocity := (0, 100),
                    current_smoothing := 0.15\<rparr>"


section \<open>Animation engine\<close>

text \<open>
  \<^verbatim>\<open>set_status_message\<close> stores a formatted text and the time of the action. The texts are
  kept here by what they are built from: \<open>Preset_applied n name\<close> stands for
  \<^verbatim>\<open>f"Preset {n}: '{name}' applied"\<close> and \<open>Model_animation paused\<close> for
  \<^verbatim>\<open>f"Model Animation: {'PAUSED' if paused else 'PLAYING'}"\<close>.
\<close>

datatype status_message = No_message | Preset_applied int string | Model_animation bool

text \<open>The animation globals of the module, with the legacy pause and auto-rotation globals.\<close>

record anim_state =
  total_animation_time :: real
  animation_speed_multiplier :: real
  model_animation_paused :: bool
  model_rotation_angle :: real
  model_rotation_speed :: real
  light_orbit_enabled :: bool
  light_orbit_angle :: real
  light_orbit_speed :: real
  light_bobbing_enabled :: bool
  light_bobbing_speed :: real
  light_bobbing_offset :: real
  light_path_enabled :: bool
  current_animation_preset :: int
  animation_paused :: bool
  auto_rotation_enabled :: bool
  current_auto_rotation :: real
  last_action_message :: status_message
  last_action_time :: real

definition initial_anim :: anim_state where
  "initial_anim =
     \<lparr>total_animation_time = 0, animation_speed_multiplier = 1,
      model_animation_paused = False, model_rotation_angle = 0, model_rotation_speed = 30,
      light_orbit_enabled = False, light_orbit_angle = 0, light_orbit_speed = 45,
      light_bobbing_enabled = False, light_bobbing_speed = 2, light_bobbing_offset = 0,
      light_path_enabled = False, current_animation_preset = 1,
      animation_paused = False, auto_rotation_enabled = True, current_auto_rotation = 0,
      last_action_message = No_message, last_action_time = 0\<rparr>"

definition use_easing :: bool where "use_easing = True"
definition easing_factor :: real where "easing_factor = 0.1"
definition model_rotation_axis :: "real \<times> real \<times> real" where "model_rotation_axis = (0, 1, 0)"


definition update_model_animation :: "real \<Rightarrow> anim_state \<Rightarrow> anim_state" where
  "update_model_animation dt s =
     (if \<not> model_animation_paused s \<and> dt > 0 then
        (let rotation_delta = model_rotation_speed s * dt * animation_speed_multiplier s;
             rotation_delta' =
               (if use_easing
                then rotation_delta * (1 + easing_factor * sin (total_animation_time s * 0.5))
                else rotation_delta)
         in s\<lparr>model_rotation_angle := py_mod (model_rotation_angle s + rotation_delta') 360\<rparr>)
      else s)"


text \<open>
  \<^verbatim>\<open>apply_model_animation_transforms\<close> issues one \<^verbatim>\<open>glRotatef(angle, x, y, z)\<close> or nothing;
  its effect is the list of calls it makes.
\<close>

datatype gl_call = GlRotatef real real real real

definition apply_model_animation_transforms :: "anim_state \<Rightarrow> gl_call list" where
  "apply_model_animation_transforms s =
     (if \<not> model_animation_paused s then
        (case model_rotation_axis of
           (x, y, z) \<Rightarrow> [GlRotatef (model_rotation_angle s) x y z])
      else [])"

definition get_total_model_rotation :: "anim_state \<Rightarrow> real" where
  "get_total_model_rotation s = (if model_animation_paused s then 0 else model_rotation_angle s)"

text \<open>\<open>ticks\<close> is the reading of \<^verbatim>\<open>pygame.time.get_ticks()\<close>, in milliseconds.\<close>

definition set_status_message :: "status_message \<Rightarrow> real \<Rightarrow> anim_state \<Rightarrow> anim_state" where
  "set_status_message message ticks s =
     s\<lparr>last_action_message := message, last_action_time := ticks / 1000\<rparr>"

definition toggle_model_animation :: "real \<Rightarrow> anim_state \<Rightarrow> anim_state" where
  "toggle_model_animation ticks s =
     (let paused = \<not> model_animation_paused s;
          speed = (if \<not> paused \<and> model_rotation_speed s \<le> 0.1
                   then 30 else model_rotation_speed s)
      in set_status_message (Model_animation paused) ticks
           (s\<lparr>model_animation_paused := paused, model_rotation_speed := speed\<rparr>))"

text \<open>
  A preset is a dictionary with a name and optional entries; a missing entry is \<open>None\<close> and
  is read with \<^verbatim>\<open>preset.get(key, default)\<close>.
\<close>

record preset =
  preset_name :: string
  preset_model_speed :: "real option"
  preset_model_paused :: "bool option"
  preset_light_orbit :: "bool option"
  preset_light_orbit_speed :: "real option"
  preset_light_bobbing :: "bool option"
  preset_light_bobbing_speed :: "real option"
  preset_light_path :: "bool option"
  preset_global_speed :: "real option"

definition dict_get :: "'a option \<Rightarrow> 'a \<Rightarrow> 'a" where
  "dict_get entry dflt = (case entry of None \<Rightarrow> dflt | Some v \<Rightarrow> v)"

definition animation_presets :: "int \<rightharpoonup> preset" where
  "animation_presets =
     [1 \<mapsto> \<lparr>preset_name = ''Showcase'', preset_model_speed = Some 20,
             preset_model_paused = Some False, preset_light_orbit = Some True,
             preset_light_orbit_speed = Some 30, preset_light_bobbing = Some False,
             preset_light_bobbing_speed = None, preset_light_path = None,
             preset_global_speed = Some 1\<rparr>,
      2 \<mapsto> \<lparr>preset_name = ''Dynamic'', preset_model_speed = Some 60,
             preset_model_paused = Some False, preset_light_orbit = Some False,
             preset_light_orbit_speed = None, preset_light_bobbing = Some True,
             preset_light_bobbing_speed = Some 3, preset_light_path = None,
             preset_global_speed = Some 1.5\<rparr>,
      3 \<mapsto> \<lparr>preset_name = ''Cinematic'', preset_model_speed = Some 0,
             preset_model_paused = Some True, preset_light_orbit = Some True,
             preset_light_orbit_speed = Some 20, preset_light_bobbing = Some True,
             preset_light_bobbing_speed = Some 1.5, preset_light_path = None,
             preset_global_speed = Some 0.8\<rparr>,
      4 \<mapsto> \<lparr>preset_name = ''Hyperdrive'', preset_model_speed = Some 120,
             preset_model_paused = Some False, preset_light_orbit = Some True,
             preset_light_orbit_speed = Some 90, preset_light_bobbing = None,
             preset_light_bobbing_speed = None, preset_light_path = Some True,
             preset_global_speed = Some 2.5\<rparr>,
      5 \<mapsto> \<lparr>preset_name = ''Zen'', preset_model_speed = Some 10,
             preset_model_paused = Some False, preset_light_orbit = Some True,
             preset_light_orbit_speed = Some 15, preset_light_bobbing = Some True,
             preset_light_bobbing_speed = Some 0.5, preset_light_path = None,
             preset_global_speed = Some 0.3\<rparr>]"

text \<open>
  What a Python call hands back: \<^verbatim>\<open>None\<close> (a bare \<^verbatim>\<open>return\<close>, or falling off the end of
  the body) or a boolean.
\<close>

datatype py_result = PyNone | PyBool bool

fun is_py_bool :: "py_result \<Rightarrow> bool" where
  "is_py_bool PyNone = False"
| "is_py_bool (PyBool b) = True"

definition apply_animation_preset :: "int \<Rightarrow> real \<Rightarrow> anim_state \<Rightarrow> py_result \<times> anim_state" where
  "apply_animation_preset preset_number ticks s =
     (case animation_presets preset_number of
        None \<Rightarrow> (PyNone, s)
      | Some p \<Rightarrow>
          (PyNone,
           set_status_message (Preset_applied preset_number (preset_name p)) ticks
             (s\<lparr>current_animation_preset := preset_number,
                model_rotation_speed := dict_get (preset_model_speed p) 30,
                model_animation_paused := dict_get (preset_model_paused p) False,
                light_orbit_enabled := dict_get (preset_light_orbit p) False,
                light_orbit_speed := dict_get (preset_light_orbit_speed p) 45,
                light_bobbing_enabled := dict_get (preset_light_bobbing p) False,
                light_bobbing_speed := dict_get (preset_light_bobbing_speed p) 2,
                light_path_enabled := dict_get (preset_light_path p) False,
                animation_speed_multiplier := dict_get (preset_global_speed p) 1\<rparr>)))"

text \<open>Everything a preset application is said to overwrite, as one tuple.\<close>

definition preset_fields ::
  "anim_state \<Rightarrow> real \<times> bool \<times> bool \<times> real \<times> bool \<times> real \<times> bool \<times> real" where
  "preset_fields s =
     (model_rotation_speed s, model_animation_paused s,
      light_orbit_enabled s, light_orbit_speed s,
      light_bobbing_enabled s, light_bobbing_speed s,
      light_path_enabled s, animation_speed_multiplier s)"

text \<open>The phase accumulators a preset application is said to leave alone.\<close>

definition phase_fields :: "anim_state \<Rightarrow> real \<times> real \<times> real \<times> real" where
  "phase_fields s =
     (model_rotation_angle s, total_animation_time s, light_orbit_angle s,
      light_bobbing_offset s)"


text \<open>A running animation: 12 s of animation time, the model turned by 45 degrees.\<close>

definition spinning :: anim_state where
  "spinning = initial_anim\<lparr>model_rotation_angle := 45, total_animation_time := 12\<rparr>"

section \<open>Shadow projection: \<^verbatim>\<open>create_shadow_matrix\<close>\<close>

text \<open>
  The light position is a 4-vector, the plane point and normal are 3-vectors, the result is
  the list of the four rows. A zero-length normal makes numpy divide by zero and fill the
  matrix with NaN; that result is \<open>None\<close> here. The rounding of the entries to float32 is
  not modelled.
\<close>

definition create_shadow_matrix ::
  "real \<times> real \<times> real \<times> real \<Rightarrow> real \<times> real \<times> real \<Rightarrow> real \<times> real \<times> real
   \<Rightarrow> real list list option" where
  "create_shadow_matrix light_pos plane_point plane_normal =
     (case (light_pos, plane_point, plane_normal) of
        ((lx, ly, lz, lw), (px, py, pz), (nx, ny, nz)) \<Rightarrow>
          (let norm = sqrt (nx * nx + ny * ny + nz * nz) in
           if norm = 0 then None
           else
             (let a = nx / norm; b = ny / norm; c = nz / norm;
                  d = - (a * px + b * py + c * pz);
                  dot = a * lx + b * ly + c * lz + d * lw
              in Some [[dot - a * lx, - b * lx, - c * lx, - d * lx],
                       [- a * ly, dot - b * ly, - c * ly, - d * ly],
                       [- a * lz, - b * lz, dot - c * lz, - d * lz],
                       [- a * lw, - b * lw, - c * lw, dot - d * lw]])))"

text \<open>
  \<^verbatim>\<open>apply_shadow_matrix\<close> hands the transposed array to \<^verbatim>\<open>glMultMatrixf\<close>, which reads it
  column by column: OpenGL multiplies the rows above with the column vector of a point and,
  for drawing, divides by the last component.
\<close>

definition mat_vec :: "real list list \<Rightarrow> real list \<Rightarrow> real list" where
  "mat_vec m v = map (\<lambda>row. sum_list (map2 (*) row v)) m"

fun perspective_divide :: "real list \<Rightarrow> (real \<times> real \<times> real) option" where
  "perspective_divide [x, y, z, w] = (if w = 0 then None else Some (x / w, y / w, z / w))"
| "perspective_divide v = None"

definition project_point ::
  "real \<times> real \<times> real \<times> real \<Rightarrow> real \<times> real \<times> real \<Rightarrow> real \<times> real \<times> real
   \<Rightarrow> real list \<Rightarrow> (real \<times> real \<times> real) option" where
  "project_point light_pos plane_point plane_normal v =
     (case create_shadow_matrix light_pos plane_point plane_normal of
        None \<Rightarrow> None
      | Some m \<Rightarrow> perspective_divide (mat_vec m v))"

section \<open>Floating-point remainder: properties\<close>

lemma round_half_even_near:
  "\<bar>of_int (round_half_even z) - z\<bar> \<le> 1 / 2"
proof -
  have "of_int \<lfloor>z\<rfloor> \<le> z" "z < of_int \<lfloor>z\<rfloor> + 1" by linarith+
  then show ?thesis
    by (auto simp: round_half_even_def Let_def)
qed



lemma double_exponent:
  assumes "0 < y" "y < 512"
  shows "\<lfloor>log 2 y\<rfloor> \<le> 8"
proof -
  have "log 2 y < 9" using assms by (simp add: log_less_iff)
  then have "\<lfloor>log 2 y\<rfloor> < 9" by (simp add: floor_less_iff)
  then show ?thesis by simp
qed

lemma double_ulp:
  assumes "0 < y" "y < 512"
  obtains n :: nat
    where "(2::real) powr (of_int \<lfloor>log 2 y\<rfloor> - 52) = 1 / 2 ^ n" "44 \<le> n"
proof -
  define n where "n = nat (52 - \<lfloor>log 2 y\<rfloor>)"
  have e: "\<lfloor>log 2 y\<rfloor> \<le> 8" using assms by (rule double_exponent)
  then have "int n = 52 - \<lfloor>log 2 y\<rfloor>" by (simp add: n_def)
  then have "real_of_int (int n) = real_of_int (52 - \<lfloor>log 2 y\<rfloor>)" by (simp only:)
  then have "of_int \<lfloor>log 2 y\<rfloor> - 52 = - real n" by simp
  then have "(2::real) powr (of_int \<lfloor>log 2 y\<rfloor> - 52) = 2 powr (- real n)"
    by (simp only:)
  also have "\<dots> = 1 / 2 ^ n"
    by (simp add: powr_minus powr_realpow divide_inverse)
  finally have "(2::real) powr (of_int \<lfloor>log 2 y\<rfloor> - 52) = 1 / 2 ^ n" .
  moreover have "44 \<le> n" using e unfolding n_def by linarith
  ultimately show ?thesis by (rule that)
qed


lemma round_to_double_near:
  assumes "0 < y" "y < 512"
  shows "\<bar>round_to_double y - y\<bar> \<le> 1 / 2 ^ 45"
proof -
  from assms obtain n :: nat
    where u: "(2::real) powr (of_int \<lfloor>log 2 y\<rfloor> - 52) = 1 / 2 ^ n" and n: "44 \<le> n"
    by (rule double_ulp)
  have r: "round_to_double y = of_int (round_half_even (y * 2 ^ n)) / 2 ^ n"
    using assms(1) by (simp add: round_to_double_def Let_def u)
  have "\<bar>round_to_double y - y\<bar>
        = \<bar>of_int (round_half_even (y * 2 ^ n)) - y * 2 ^ n\<bar> / 2 ^ n"
    by (simp add: r field_simps abs_divide)
  also have "\<dots> \<le> (1 / 2) / 2 ^ n"
    by (intro divide_right_mono round_half_even_near) simp
  also have "\<dots> \<le> (1 / 2) / 2 ^ 44"
    using n by (intro divide_left_mono power_increasing mult_pos_pos) simp_all
  finally show ?thesis by simp
qed



lemma c_trunc_small: "- 1 < z \<Longrightarrow> z < 1 \<Longrightarrow> c_trunc z = 0"
  by (simp add: c_trunc_def floor_eq_iff ceiling_eq_iff)

lemma fmod_360_small: "- 360 < x \<Longrightarrow> x < 360 \<Longrightarrow> fmod x 360 = x"
  by (simp add: fmod_def c_trunc_small)



lemma py_mod_360_id: "0 \<le> x \<Longrightarrow> x < 360 \<Longrightarrow> py_mod x 360 = x"
  by (simp add: py_mod_def Let_def fmod_360_small)

lemma py_mod_360_wrap:
  assumes "- 360 < x" "x < 0"
  shows "\<bar>py_mod x 360 - (x + 360)\<bar> \<le> 1 / 2 ^ 45"
proof -
  have "py_mod x 360 = round_to_double (x + 360)"
    using assms by (simp add: py_mod_def Let_def fmod_360_small)
  moreover have "\<bar>round_to_double (x + 360) - (x + 360)\<bar> \<le> 1 / 2 ^ 45"
    using assms by (intro round_to_double_near) simp_all
  ultimately show ?thesis by simp
qed


section \<open>Frame clock: properties\<close>

lemma calculate_delta_time_first:
  "last_frame_time s = 0 \<Longrightarrow> delta_time (calculate_delta_time t s) = 1 / 60"
  by (simp add: calculate_delta_time_def Let_def)

lemma calculate_delta_time_last:
  "last_frame_time (calculate_delta_time t s) = t"
  by (simp add: calculate_delta_time_def Let_def)

lemma calculate_delta_time_bounds:
  assumes "clock_ok s"
  shows "0.001 \<le> delta_time (calculate_delta_time t s)
       \<and> delta_time (calculate_delta_time t s) \<le> 0.033"
proof (cases "last_frame_time s = 0")
  case True
  then show ?thesis by (simp add: calculate_delta_time_def Let_def)
next
  case False
  with assms have d: "0.001 \<le> delta_time s" "delta_time s \<le> 0.033"
    by (simp_all add: clock_ok_def)
  define r where "r = t - last_frame_time s"
  consider "r > 0.033" | "r < 0.001" | "0.001 \<le> r" "r \<le> 0.033"
    by linarith
  then show ?thesis
  proof cases
    case 1
    with False show ?thesis by (simp add: calculate_delta_time_def Let_def r_def)
  next
    case 2
    with False show ?thesis by (simp add: calculate_delta_time_def Let_def r_def)
  next
    case 3
    with False have "delta_time (calculate_delta_time t s) = delta_time s * 0.7 + r * 0.3"
      by (simp add: calculate_delta_time_def Let_def r_def)
    with d 3 show ?thesis by simp
  qed
qed

lemma calculate_delta_time_ok:
  "clock_ok s \<Longrightarrow> clock_ok (calculate_delta_time t s)"
  using calculate_delta_time_bounds [of s t] by (simp add: clock_ok_def)

lemma run_clock_ok:
  "clock_ok s \<Longrightarrow> clock_ok (run_clock ts s)"
  by (induction ts arbitrary: s) (simp_all add: calculate_delta_time_ok)

lemma initial_clock_ok: "clock_ok initial_clock"
  by (simp add: clock_ok_def initial_clock_def)

text \<open>
  Claim C2. The first call of the frame clock, recognised by \<^verbatim>\<open>last_frame_time == 0.0\<close>,
  reports exactly 1/60 s. Every later call, after any wall-clock samples \<open>t # ts\<close> and for
  any new sample \<open>t'\<close>, reports a delta within [0.001, 0.033].
\<close>

theorem frame_clock_delta_range:
  "(last_frame_time s = 0 \<longrightarrow> delta_time (calculate_delta_time t s) = 1 / 60)
   \<and> delta_time (calculate_delta_time t initial_clock) = 1 / 60
   \<and> 0.001 \<le> delta_time (calculate_delta_time t' (run_clock (t # ts) initial_clock))
   \<and> delta_time (calculate_delta_time t' (run_clock (t # ts) initial_clock)) \<le> 0.033"
proof -
  have "clock_ok (run_clock (t # ts) initial_clock)"
    by (rule run_clock_ok) (rule initial_clock_ok)
  from calculate_delta_time_bounds [OF this, of t']
  show ?thesis
    by (simp add: calculate_delta_time_first initial_clock_def)
qed

theorem frame_clock_delta_range_witness:
  "last_frame_time initial_clock = 0
   \<and> delta_time (calculate_delta_time 100 initial_clock) = 1 / 60
   \<and> 0.001 \<le> delta_time (calculate_delta_time 103 (run_clock [100, 100.02] initial_clock))
   \<and> delta_time (calculate_delta_time 103 (run_clock [100, 100.02] initial_clock)) \<le> 0.033"
  using frame_clock_delta_range [of initial_clock 100 103 "[100.02]"]
  by (simp add: initial_clock_def)


text \<open>
  Claim C3, as amended. On a call after the first the exponential blend
  \<open>prev * 0.7 + raw * 0.3\<close> is applied only when the raw delta already lies within
  [0.001, 0.033]; when the raw delta is out of bounds the reported delta is the clamped raw
  delta itself and the previous delta is discarded.
\<close>

theorem frame_clock_blend_cases:
  "last_frame_time s \<noteq> 0 \<Longrightarrow>
   delta_time (calculate_delta_time t s) =
     (if 0.001 \<le> t - last_frame_time s \<and> t - last_frame_time s \<le> 0.033
      then delta_time s * 0.7 + (t - last_frame_time s) * 0.3
      else np_clip (t - last_frame_time s) 0.001 0.033)"
  by (simp add: calculate_delta_time_def Let_def np_clip_def)

theorem frame_clock_blend_cases_witness:
  "last_frame_time (run_clock [1] initial_clock) \<noteq> 0
   \<and> delta_time (calculate_delta_time 2 (run_clock [1] initial_clock)) = 0.033"
  using frame_clock_blend_cases [of "run_clock [1] initial_clock" 2]
  by (simp add: calculate_delta_time_def initial_clock_def Let_def np_clip_def)

text \<open>
  Claim C3 as stated fails: after a first call at time 1 (delta 1/60), a call at time 2 has
  a raw delta of 1 s, clamped to 0.033; the code reports 0.033, not the blend
  \<open>1/60 * 0.7 + 0.033 * 0.3\<close>.
\<close>

theorem frame_clock_blend_counterexample:
  "delta_time (calculate_delta_time 2 (run_clock [1] initial_clock)) \<noteq>
     delta_time (run_clock [1] initial_clock) * 0.7
     + np_clip (2 - last_frame_time (run_clock [1] initial_clock)) 0.001 0.033 * 0.3"
  by (simp add: calculate_delta_time_def initial_clock_def Let_def np_clip_def)

section \<open>Orbital camera: properties\<close>


lemma update_dynamic_smoothing_pose:
  "camera_yaw (update_dynamic_smoothing e c) = camera_yaw c"
  "camera_pitch (update_dynamic_smoothing e c) = camera_pitch c"
  "camera_distance (update_dynamic_smoothing e c) = camera_distance c"
  by (simp_all add: update_dynamic_smoothing_def Let_def)

lemma update_camera_position_yaw:
  "camera_yaw (update_camera_position e c) =
     (if frame_delta_time e > 0
      then py_mod (camera_yaw c + fst (rotation_velocity (update_camera_position e c))
                                  * frame_delta_time e) 360
      else camera_yaw c)"
  by (simp add: update_camera_position_def update_orbital_camera_def Let_def
      update_dynamic_smoothing_pose)

lemma update_camera_position_pitch:
  "camera_pitch (update_camera_position e c) =
     (if frame_delta_time e > 0
      then np_clip (camera_pitch c + snd (rotation_velocity (update_camera_position e c))
                                     * frame_delta_time e) (- pitch_limit) pitch_limit
      else camera_pitch c)"
  by (simp add: update_camera_position_def update_orbital_camera_def Let_def
      update_dynamic_smoothing_pose)






lemmas camera_constants = pitch_limit_def min_zoom_distance_def max_zoom_distance_def
  strafe_speed_multiplier_def vertical_speed_multiplier_def turbo_multiplier_def
  fast_smoothing_threshold_def input_smoothing_factor_def idle_smoothing_factor_def
  fast_mode_smoothing_def

lemma hold_right_smoothing:
  "current_smoothing (update_camera_position (hold_env K_d dt t) c)
     = current_smoothing c * 0.85 + 0.0225"
  by (simp add: update_camera_position_def update_dynamic_smoothing_def
      update_orbital_camera_def Let_def hold_env_def default_env_def camera_constants)

lemma hold_right_velocity:
  "fst (rotation_velocity (update_camera_position (hold_env K_d dt t) c))
     = fst (rotation_velocity c) * current_smoothing (update_camera_position (hold_env K_d dt t) c)
       - 130 * (1 - current_smoothing (update_camera_position (hold_env K_d dt t) c))"
  by (simp add: update_camera_position_def update_dynamic_smoothing_def
      update_orbital_camera_def Let_def hold_env_def default_env_def camera_constants)

lemma hold_right_yaw:
  "camera_yaw (update_camera_position (hold_env K_d (1 / 60) t) c)
     = py_mod (camera_yaw c
               + fst (rotation_velocity (update_camera_position (hold_env K_d (1 / 60) t) c)) / 60)
         360"
  by (simp add: update_camera_position_yaw hold_env_def default_env_def)


lemma orbit_right_inv_first:
  "orbit_right_inv 1 (update_camera_position (hold_env K_d (1 / 60) t) initial_camera)"
proof -
  let ?c = "update_camera_position (hold_env K_d (1 / 60) t) initial_camera"
  have s: "current_smoothing ?c = 0.7195"
    by (simp add: hold_right_smoothing initial_camera_def)
  have v: "fst (rotation_velocity ?c) = - 36.465"
    by (simp add: hold_right_velocity s) (simp add: initial_camera_def)
  have "camera_yaw ?c = py_mod (- 0.60775) 360"
    by (simp add: hold_right_yaw v) (simp add: initial_camera_def)
  moreover have "\<bar>py_mod (- 0.60775) 360 - (- 0.60775 + 360)\<bar> \<le> 1 / 2 ^ 45"
    by (rule py_mod_360_wrap) simp_all
  ultimately have "\<bar>camera_yaw ?c - 1437569 / 4000\<bar> \<le> 1 / 2 ^ 45" by simp
  also have "(1::real) / 2 ^ 45 \<le> 1 / 10" by simp
  finally have near: "\<bar>camera_yaw ?c - 1437569 / 4000\<bar> \<le> 1 / 10" .
  have lo: "359 < camera_yaw ?c" using near by argo
  have hi: "camera_yaw ?c < 360" using near by argo
  have y1: "360 - 130 * real 1 / 60 < camera_yaw ?c" using lo by simp
  have y2: "60 * (camera_yaw ?c - 360) + 130 * real 1 + 41 / 9 * (130 + - 36.465)
            \<le> 130 * (41 / 9)"
    using hi by simp
  from hi y1 y2 show ?thesis
    by (simp add: orbit_right_inv_def s v)
qed

lemma orbit_right_inv_step:
  assumes inv: "orbit_right_inv n c" and n: "n \<le> 100"
  shows "orbit_right_inv (Suc n) (update_camera_position (hold_env K_d (1 / 60) t) c)"
proof -
  let ?c = "update_camera_position (hold_env K_d (1 / 60) t) c"
  define s where "s = current_smoothing c"
  define w where "w = 130 + fst (rotation_velocity c)"
  define s' where "s' = current_smoothing ?c"
  define w' where "w' = 130 + fst (rotation_velocity ?c)"
  define m where "m = real n"
  from inv have s: "3 / 20 \<le> s" "s \<le> 41 / 50" and w: "0 < w" "w < 130"
    and y: "360 - 130 * m / 60 < camera_yaw c" "camera_yaw c < 360"
    and pot: "60 * (camera_yaw c - 360) + 130 * m + 41 / 9 * w \<le> 130 * (41 / 9)"
    by (simp_all add: orbit_right_inv_def s_def w_def m_def)
  have s'_eq: "s' = s * (17 / 20) + 9 / 400"
    by (simp add: s'_def s_def hold_right_smoothing)
  have s': "3 / 20 \<le> s'" "s' \<le> 41 / 50"
    using s unfolding s'_eq by argo+
  have w'_eq: "w' = s' * w"
    unfolding w'_def s'_def w_def by (subst hold_right_velocity) (simp add: algebra_simps)
  have w'_pos: "0 < w'"
    using s' w unfolding w'_eq by (intro mult_pos_pos) linarith+
  have "s' * w \<le> 41 / 50 * w"
    using s' w by (intro mult_right_mono) linarith+
  then have w'_le: "w' \<le> 41 / 50 * w" by (simp add: w'_eq)
  have m: "m \<le> 100" using n by (simp add: m_def)
  define x where "x = camera_yaw c + (w' - 130) / 60"
  have x0: "0 \<le> x" using y w'_pos m unfolding x_def by argo
  have x1: "x < 360" using y w'_le w unfolding x_def by argo
  have x2: "360 - 130 * (m + 1) / 60 < x" using y w'_pos unfolding x_def by argo
  have x3: "60 * (x - 360) + 130 * (m + 1) + 41 / 9 * w' \<le> 130 * (41 / 9)"
    using pot w'_le unfolding x_def by argo
  have w'1: "w' < 130" using w'_le w by argo
  have "camera_yaw ?c = py_mod x 360"
    by (simp add: hold_right_yaw x_def w'_def)
  with x0 x1 have y': "camera_yaw ?c = x" by (simp add: py_mod_360_id)
  have v': "fst (rotation_velocity ?c) = w' - 130" by (simp add: w'_def)
  have sc: "current_smoothing ?c = s'" by (simp add: s'_def)
  have mS: "real (Suc n) = m + 1" by (simp add: m_def)
  show ?thesis
    unfolding orbit_right_inv_def y' v' sc mS
    using s' w'_pos w'1 x1 x2 x3 by simp
qed

lemma orbit_right_inv_hold:
  "orbit_right_inv n c \<Longrightarrow> n + k \<le> 101 \<Longrightarrow>
   orbit_right_inv (n + k) (hold_control K_d (1 / 60) k t c)"
proof (induction k arbitrary: n t c)
  case 0
  then show ?case by simp
next
  case (Suc k)
  from Suc.prems have "orbit_right_inv (Suc n) (update_camera_position (hold_env K_d (1 / 60) t) c)"
    by (intro orbit_right_inv_step) simp_all
  from Suc.IH [OF this, of "t + 1 / 60"] Suc.prems(2) show ?case by simp
qed

lemma hold_right_yaw_bounds:
  "230 < camera_yaw (hold_control K_d (1 / 60) 60 t initial_camera)
   \<and> camera_yaw (hold_control K_d (1 / 60) 60 t initial_camera) < 240"
proof -
  let ?c = "hold_control K_d (1 / 60) 60 t initial_camera"
  have "(60::nat) = Suc 59" by simp
  then have "?c = hold_control K_d (1 / 60) 59 (t + 1 / 60)
                    (update_camera_position (hold_env K_d (1 / 60) t) initial_camera)"
    by (simp del: hold_control.simps add: hold_control.simps(2) [symmetric])
  moreover have "orbit_right_inv (1 + 59)
      (hold_control K_d (1 / 60) 59 (t + 1 / 60)
         (update_camera_position (hold_env K_d (1 / 60) t) initial_camera))"
    by (rule orbit_right_inv_hold [OF orbit_right_inv_first]) simp
  ultimately have "orbit_right_inv 60 ?c" by simp
  then have "360 - 130 < camera_yaw ?c"
    and "60 * (camera_yaw ?c - 360) + 130 * 60 + 41 / 9 * (130 + fst (rotation_velocity ?c))
          \<le> 130 * (41 / 9)"
    and "- 130 < fst (rotation_velocity ?c)"
    by (simp_all add: orbit_right_inv_def)
  then show ?thesis by argo
qed

text \<open>
  Claim C7, as amended. From yaw 0, pitch 0, distance 8, holding only the orbit-right key
  \<^verbatim>\<open>K_d\<close> for 60 frames of 1/60 s, turbo off, orbit speed 100: the yaw rate is negative and
  its target is \<open>- 100 * 1.3 = - 130\<close> degrees per second (the strafe multiplier applies),
  so the yaw decreases and is reported wrapped into [0, 360). The final yaw is strictly
  between 230 and 240 degrees: the camera has swept more than 120 and less than 130
  degrees, lagging the unsmoothed 130.
\<close>

theorem orbit_right_one_second:
  "230 < camera_yaw (hold_control K_d (1 / 60) 60 t initial_camera)
   \<and> camera_yaw (hold_control K_d (1 / 60) 60 t initial_camera) < 240"
  by (rule hold_right_yaw_bounds)

text \<open>
  Claim C7 as stated fails: in that scenario, the wall clock starting at 0, the final yaw
  is not strictly between 0 and 100 degrees.
\<close>

theorem orbit_right_one_second_counterexample:
  "\<not> (0 < camera_yaw (hold_control K_d (1 / 60) 60 0 initial_camera)
      \<and> camera_yaw (hold_control K_d (1 / 60) 60 0 initial_camera) < 100)"
  using hold_right_yaw_bounds [of 0] by simp

lemma update_dynamic_smoothing_pitch_free:
  "current_smoothing (update_dynamic_smoothing e (c\<lparr>camera_pitch := p\<rparr>))
     = current_smoothing (update_dynamic_smoothing e c)"
  "rotation_velocity (update_dynamic_smoothing e (c\<lparr>camera_pitch := p\<rparr>))
     = rotation_velocity (update_dynamic_smoothing e c)"
  by (simp_all add: update_dynamic_smoothing_def Let_def)

text \<open>
  Claim C8, as amended. A camera update only clamps the pitch value into [-89, 89]. The
  pitch rate it leaves behind is the smoothed rate, computed without looking at the pitch:
  it is the same whatever the pitch \<open>p\<close> was, so at the limit the rate persists and the
  integration is attempted and clipped again on the next frame.
\<close>

theorem pitch_clamp_keeps_rate:
  "rotation_velocity (update_camera_position e (c\<lparr>camera_pitch := p\<rparr>))
     = rotation_velocity (update_camera_position e c)
   \<and> camera_pitch (update_camera_position e c) =
       (if frame_delta_time e > 0
        then np_clip (camera_pitch c
                      + snd (rotation_velocity (update_camera_position e c)) * frame_delta_time e)
               (- 89) 89
        else camera_pitch c)"
proof -
  have "rotation_velocity (update_camera_position e (c\<lparr>camera_pitch := p\<rparr>))
        = rotation_velocity (update_camera_position e c)"
    by (simp add: update_camera_position_def update_orbital_camera_def Let_def
        update_dynamic_smoothing_pitch_free)
  then show ?thesis
    using update_camera_position_pitch [of e c] by (simp add: pitch_limit_def)
qed

text \<open>
  Claim C8 as stated fails: at the upper limit with \<^verbatim>\<open>K_q\<close> held, the update would carry the
  pitch past 89 and clamps it, yet the pitch rate it leaves is still positive (110.2), not
  zeroed.
\<close>

theorem pitch_clamp_counterexample:
  "\<not> (pitch_limit < camera_pitch at_pitch_limit
         + snd (rotation_velocity (update_camera_position (hold_env K_q (1 / 60) 1) at_pitch_limit))
           * (1 / 60)
      \<longrightarrow> snd (rotation_velocity (update_camera_position (hold_env K_q (1 / 60) 1) at_pitch_limit))
          \<le> 0)"
  by (simp add: update_camera_position_def update_dynamic_smoothing_def
      update_orbital_camera_def Let_def hold_env_def default_env_def initial_camera_def
      at_pitch_limit_def camera_constants)

section \<open>Animation engine: properties\<close>





lemma animation_presets_dom: "dom animation_presets = {1, 2, 3, 4, 5}"
  by (auto simp: animation_presets_def split: if_splits)

lemma apply_animation_preset_phase:
  "phase_fields (snd (apply_animation_preset n ticks s)) = phase_fields s"
  by (simp add: apply_animation_preset_def set_status_message_def phase_fields_def
      split: option.split)

text \<open>
  Claim C6. For a preset id \<open>n\<close> of the table, with entry \<open>p\<close>, one call of
  \<^verbatim>\<open>apply_animation_preset\<close> sets the model rotation speed and pause flag, the three light
  channel flags, the orbit and bobbing speeds and the global speed multiplier to the
  entries of \<open>p\<close>, an absent entry giving its fixed default; these values do not depend on
  the state before the call. The call leaves \<open>model_rotation_angle\<close>,
  \<open>total_animation_time\<close>, \<open>light_orbit_angle\<close> and \<open>light_bobbing_offset\<close> unchanged. In
  particular preset 4 (Hyperdrive) followed by preset 5 (Zen) leaves the rotation angle
  and the total time as they were.
\<close>

theorem apply_preset_overwrites:
  "animation_presets n = Some p \<Longrightarrow>
   preset_fields (snd (apply_animation_preset n ticks s)) =
     (dict_get (preset_model_speed p) 30, dict_get (preset_model_paused p) False,
      dict_get (preset_light_orbit p) False, dict_get (preset_light_orbit_speed p) 45,
      dict_get (preset_light_bobbing p) False, dict_get (preset_light_bobbing_speed p) 2,
      dict_get (preset_light_path p) False, dict_get (preset_global_speed p) 1)
   \<and> phase_fields (snd (apply_animation_preset n ticks s)) = phase_fields s
   \<and> model_rotation_angle
        (snd (apply_animation_preset 5 ticks' (snd (apply_animation_preset 4 ticks s))))
       = model_rotation_angle s
   \<and> total_animation_time
        (snd (apply_animation_preset 5 ticks' (snd (apply_animation_preset 4 ticks s))))
       = total_animation_time s"
proof -
  assume p: "animation_presets n = Some p"
  have a: "preset_fields (snd (apply_animation_preset n ticks s)) =
     (dict_get (preset_model_speed p) 30, dict_get (preset_model_paused p) False,
      dict_get (preset_light_orbit p) False, dict_get (preset_light_orbit_speed p) 45,
      dict_get (preset_light_bobbing p) False, dict_get (preset_light_bobbing_speed p) 2,
      dict_get (preset_light_path p) False, dict_get (preset_global_speed p) 1)"
    using p by (simp add: apply_animation_preset_def set_status_message_def preset_fields_def)
  have "phase_fields
          (snd (apply_animation_preset 5 ticks' (snd (apply_animation_preset 4 ticks s))))
        = phase_fields s"
    by (simp only: apply_animation_preset_phase)
  then have b: "model_rotation_angle
        (snd (apply_animation_preset 5 ticks' (snd (apply_animation_preset 4 ticks s))))
       = model_rotation_angle s"
    and c: "total_animation_time
        (snd (apply_animation_preset 5 ticks' (snd (apply_animation_preset 4 ticks s))))
       = total_animation_time s"
    by (simp_all add: phase_fields_def)
  from a b c apply_animation_preset_phase [of n ticks s] show ?thesis by simp
qed

theorem apply_preset_overwrites_witness:
  "animation_presets 4 \<noteq> None
   \<and> preset_fields (snd (apply_animation_preset 4 2000 spinning)) =
       (120, False, True, 90, False, 2, True, 2.5)
   \<and> phase_fields (snd (apply_animation_preset 4 2000 spinning)) = (45, 12, 0, 0)
   \<and> model_rotation_angle
        (snd (apply_animation_preset 5 3000 (snd (apply_animation_preset 4 2000 spinning))))
       = 45
   \<and> total_animation_time
        (snd (apply_animation_preset 5 3000 (snd (apply_animation_preset 4 2000 spinning))))
       = 12"
proof -
  have p: "animation_presets 4 =
      Some \<lparr>preset_name = ''Hyperdrive'', preset_model_speed = Some 120,
             preset_model_paused = Some False, preset_light_orbit = Some True,
             preset_light_orbit_speed = Some 90, preset_light_bobbing = None,
             preset_light_bobbing_speed = None, preset_light_path = Some True,
             preset_global_speed = Some 2.5\<rparr>"
    by (simp add: animation_presets_def)
  from apply_preset_overwrites [OF p, of 2000 spinning 3000] p
  show ?thesis
    by (simp add: dict_get_def phase_fields_def spinning_def initial_anim_def)
qed

text \<open>
  Claim C9, as amended. For a preset id that is not in the table,
  \<^verbatim>\<open>apply_animation_preset\<close> changes nothing at all, raises nothing, and returns \<^verbatim>\<open>None\<close>.
  It returns \<^verbatim>\<open>None\<close> after applying a preset of the table as well, so the returned value
  is not a boolean and does not tell a rejection from an application.
\<close>

theorem apply_preset_unknown:
  "animation_presets n = None \<Longrightarrow>
   apply_animation_preset n ticks s = (PyNone, s)
   \<and> fst (apply_animation_preset m ticks s) = PyNone"
  by (simp add: apply_animation_preset_def split: option.split)

theorem apply_preset_unknown_witness:
  "animation_presets 99 = None
   \<and> apply_animation_preset 99 2000 initial_anim = (PyNone, initial_anim)
   \<and> fst (apply_animation_preset 1 2000 initial_anim) = PyNone"
proof -
  have n: "animation_presets 99 = None"
    by (simp add: animation_presets_def)
  from apply_preset_unknown [OF n, of 2000 initial_anim 1] n show ?thesis by simp
qed

text \<open>
  Claim C9 as stated fails: for the unknown preset id 99 the returned value is not a
  boolean.
\<close>

theorem apply_preset_unknown_counterexample:
  "\<not> is_py_bool (fst (apply_animation_preset 99 2000 initial_anim))"
  by (simp add: apply_animation_preset_def animation_presets_def)

text \<open>
  Claim C10. While the model animation is paused, \<^verbatim>\<open>get_total_model_rotation\<close> returns 0
  whatever the stored \<open>model_rotation_angle\<close> is, \<^verbatim>\<open>apply_model_animation_transforms\<close> issues
  no rotation, and \<^verbatim>\<open>update_model_animation\<close> keeps the stored angle. Resuming with
  \<^verbatim>\<open>toggle_model_animation\<close> makes the accessor return the stored angle again and the
  renderer rotate by it: \<^verbatim>\<open>apply_model_animation_transforms\<close> issues exactly one
  \<^verbatim>\<open>glRotatef\<close> by the stored angle about the axis (0, 1, 0). While the animation runs the
  accessor returns the stored angle and the renderer issues that one rotation; pausing makes
  the accessor return 0 and the renderer issue no rotation, while the angle stays stored.
\<close>

theorem paused_rotation_reported_zero:
  "(model_animation_paused s \<longrightarrow>
      get_total_model_rotation s = 0
      \<and> apply_model_animation_transforms s = []
      \<and> model_rotation_angle (update_model_animation dt s) = model_rotation_angle s
      \<and> get_total_model_rotation (toggle_model_animation ticks s) = model_rotation_angle s
      \<and> apply_model_animation_transforms (toggle_model_animation ticks s)
          = [GlRotatef (model_rotation_angle s) 0 1 0])
   \<and> (\<not> model_animation_paused s \<longrightarrow>
      get_total_model_rotation s = model_rotation_angle s
      \<and> apply_model_animation_transforms s = [GlRotatef (model_rotation_angle s) 0 1 0]
      \<and> get_total_model_rotation (toggle_model_animation ticks s) = 0
      \<and> apply_model_animation_transforms (toggle_model_animation ticks s) = []
      \<and> model_rotation_angle (toggle_model_animation ticks s) = model_rotation_angle s)"
  by (simp add: get_total_model_rotation_def apply_model_animation_transforms_def
      model_rotation_axis_def update_model_animation_def toggle_model_animation_def
      set_status_message_def Let_def)

theorem paused_rotation_reported_zero_witness:
  "model_animation_paused (initial_anim\<lparr>model_rotation_angle := 45, model_animation_paused := True\<rparr>)
   \<and> get_total_model_rotation
       (initial_anim\<lparr>model_rotation_angle := 45, model_animation_paused := True\<rparr>) = 0
   \<and> apply_model_animation_transforms
       (initial_anim\<lparr>model_rotation_angle := 45, model_animation_paused := True\<rparr>) = []
   \<and> get_total_model_rotation
       (toggle_model_animation 2000
          (initial_anim\<lparr>model_rotation_angle := 45, model_animation_paused := True\<rparr>)) = 45
   \<and> apply_model_animation_transforms
       (toggle_model_animation 2000
          (initial_anim\<lparr>model_rotation_angle := 45, model_animation_paused := True\<rparr>))
       = [GlRotatef 45 0 1 0]
   \<and> \<not> model_animation_paused (initial_anim\<lparr>model_rotation_angle := 45\<rparr>)
   \<and> apply_model_animation_transforms (initial_anim\<lparr>model_rotation_angle := 45\<rparr>)
       = [GlRotatef 45 0 1 0]
   \<and> get_total_model_rotation
       (toggle_model_animation 2000 (initial_anim\<lparr>model_rotation_angle := 45\<rparr>)) = 0
   \<and> apply_model_animation_transforms
       (toggle_model_animation 2000 (initial_anim\<lparr>model_rotation_angle := 45\<rparr>)) = []"
  using paused_rotation_reported_zero
          [of "initial_anim\<lparr>model_rotation_angle := 45, model_animation_paused := True\<rparr>" 0 2000]
        paused_rotation_reported_zero [of "initial_anim\<lparr>model_rotation_angle := 45\<rparr>" 0 2000]
  by (simp add: initial_anim_def)

section \<open>Shadow projection: properties\<close>

text \<open>
  Claim C4. For the light (5, 5, 5, 1), the plane point (0, 0, 0) and the plane normal
  (0, 1, 0), the matrix of \<^verbatim>\<open>create_shadow_matrix\<close> sends the homogeneous point
  (0, 0, 0, 1) to a vector whose perspective divide is (0, 0, 0) again.
\<close>

theorem shadow_fixed_point:
  "project_point (5, 5, 5, 1) (0, 0, 0) (0, 1, 0) [0, 0, 0, 1] = Some (0, 0, 0)"
  by (simp add: project_point_def create_shadow_matrix_def mat_vec_def)

end
